theory Spec2Isabelle
  imports Complex_Main "HOL-Library.Word" "HOL-Library.Sublist"
begin

section \<open>Python values\<close>

subsection \<open>Strings\<close>

text \<open>
  A Python \<open>str\<close> is a sequence of Unicode code points, so it is modelled as a list of
  natural numbers (the code points), not as a list of 8-bit characters: the program
  encodes strings to UTF-8 and asks for the Unicode class of single characters.
  \<open>lit\<close> turns an ASCII literal of the source into such a string.
\<close>

type_synonym pystr = "nat list"

definition lit :: "string \<Rightarrow> pystr" where
  "lit s = map of_char s"

text \<open>\<open>sep.join(xs)\<close> for a list of strings.\<close>

fun py_join :: "pystr \<Rightarrow> pystr list \<Rightarrow> pystr" where
  "py_join sep [] = []"
| "py_join sep [x] = x"
| "py_join sep (x # y # ys) = x @ sep @ py_join sep (y # ys)"

text \<open>
  \<open>s.split(c)\<close> for a separator \<open>c\<close> of one character (the program only splits at
  \<open>","\<close>): the pieces between the occurrences of \<open>c\<close>; the empty string gives one
  empty piece. The recursive call never returns the empty list, so the last case of the
  \<open>case\<close> is never taken.
\<close>

fun py_split :: "nat \<Rightarrow> pystr \<Rightarrow> pystr list" where
  "py_split c [] = [] # []"
| "py_split c (x # xs) =
     (if x = c then [] # py_split c xs
      else (case py_split c xs of p # ps \<Rightarrow> (x # p) # ps | [] \<Rightarrow> [x] # []))"

text \<open>\<open>'{s}'\<close> inside an f-string: the text between two apostrophes.\<close>

definition quoted :: "pystr \<Rightarrow> pystr" where
  "quoted s = [39] @ s @ [39]"

text \<open>\<open>str(n)\<close> for a Python integer: its decimal digits, with a sign when negative.\<close>

fun digits :: "nat \<Rightarrow> pystr" where
  "digits n = (if n < 10 then [48 + n] else digits (n div 10) @ [48 + n mod 10])"

declare digits.simps [simp del]

definition str_int :: "int \<Rightarrow> pystr" where
  "str_int i = (if i < 0 then lit ''-'' @ digits (nat (- i)) else digits (nat i))"

subsection \<open>Exceptions\<close>

text \<open>
  An exception is modelled by the classes it is an instance of (its class and the base
  classes, as in its method resolution order) and by its text (\<open>str(e)\<close>). An
  \<open>except C\<close> clause catches it when \<open>C\<close> is among the classes. The classes of the
  \<open>requests\<close> library come first; \<open>RequestsJSONDecodeError\<close> is
  \<open>requests.exceptions.JSONDecodeError\<close> and \<open>JSONDecodeError\<close> is the one of the
  standard \<open>json\<close> module, which line 50 of the source names. The text of the errors
  that the interpreter itself raises is left empty.
\<close>

datatype exc_class =
    HTTPError | Timeout | ConnectionError | RequestException
  | InvalidJSONError | RequestsJSONDecodeError
  | JSONDecodeError | ValueError | OSError | TypeError | AttributeError
  | UnicodeError | UnicodeEncodeError | UnicodeDecodeError
  | NameError | UnboundLocalError | KeyError | LookupError
  | OtherError pystr

datatype py_exc = PyExc (mro: "exc_class list") (msg: pystr)

definition isinstance :: "py_exc \<Rightarrow> exc_class \<Rightarrow> bool" where
  "isinstance e c = (c \<in> set (mro e))"

definition raise :: "exc_class list \<Rightarrow> py_exc" where
  "raise cs = PyExc cs []"

subsection \<open>Parsed JSON\<close>

text \<open>
  What \<open>response.json()\<close> returns: \<open>None\<close>, a \<open>bool\<close>, an \<open>int\<close>, a \<open>float\<close>, a
  \<open>str\<close>, a \<open>list\<close> or a \<open>dict\<close>. A \<open>dict\<close> is the list of its items in insertion
  order, with distinct keys; a lookup takes the entry of the key. A \<open>float\<close> is
  represented by the real number it denotes, so \<open>nan\<close>, the infinities and the sign of
  zero are not represented. \<open>JNull\<close> is also the \<open>None\<close> that \<open>fetch_company_data\<close>
  returns on failure: Python does not tell the two apart.
\<close>

datatype json =
    JNull | JBool bool | JInt int | JFloat real | JStr pystr
  | JArr "json list" | JObj "(pystr \<times> json) list"

text \<open>
  The parts of the Python runtime that are tables of the Unicode database or long
  printing routines are parameters of the model: \<open>str.isalnum\<close> and \<open>str.isspace\<close>
  of a character, \<open>str\<close> of a float, and \<open>str\<close> of a list or dict (its \<open>repr\<close>).
\<close>

record pylib =
  isalnum :: "nat \<Rightarrow> bool"
  isspace :: "nat \<Rightarrow> bool"
  float_str :: "real \<Rightarrow> pystr"
  container_str :: "json \<Rightarrow> pystr"

text \<open>The truth value of an object, as \<open>if x\<close> and \<open>not x\<close> test it.\<close>

fun truthy :: "json \<Rightarrow> bool" where
  "truthy JNull = False"
| "truthy (JBool b) = b"
| "truthy (JInt i) = (i \<noteq> 0)"
| "truthy (JFloat r) = (r \<noteq> 0)"
| "truthy (JStr s) = (s \<noteq> [])"
| "truthy (JArr xs) = (xs \<noteq> [])"
| "truthy (JObj kvs) = (kvs \<noteq> [])"

fun py_str :: "pylib \<Rightarrow> json \<Rightarrow> pystr" where
  "py_str L JNull = lit ''None''"
| "py_str L (JBool b) = (if b then lit ''True'' else lit ''False'')"
| "py_str L (JInt i) = str_int i"
| "py_str L (JFloat r) = float_str L r"
| "py_str L (JStr s) = s"
| "py_str L (JArr xs) = container_str L (JArr xs)"
| "py_str L (JObj kvs) = container_str L (JObj kvs)"

text \<open>\<open>d.get(k, dflt)\<close> on a dict.\<close>

definition dict_get :: "(pystr \<times> json) list \<Rightarrow> pystr \<Rightarrow> json \<Rightarrow> json" where
  "dict_get d k dflt = (case map_of d k of None \<Rightarrow> dflt | Some v \<Rightarrow> v)"

text \<open>
  The operations that the program applies to parsed data, with the exception Python
  raises where the object does not support them: \<open>k in v\<close>, \<open>v[k]\<close>, \<open>v.get(k, dflt)\<close>,
  iteration, \<open>len(v)\<close> and \<open>n < v\<close> for an integer \<open>n\<close>.
\<close>

definition py_contains :: "pystr \<Rightarrow> json \<Rightarrow> py_exc + bool" where
  "py_contains k v =
     (case v of
        JObj d \<Rightarrow> Inr (k \<in> fst ` set d)
      | JArr xs \<Rightarrow> Inr (JStr k \<in> set xs)
      | JStr s \<Rightarrow> Inr (sublist k s)
      | _ \<Rightarrow> Inl (raise [TypeError]))"

definition py_subscript :: "json \<Rightarrow> pystr \<Rightarrow> py_exc + json" where
  "py_subscript v k =
     (case v of
        JObj d \<Rightarrow>
          (case map_of d k of None \<Rightarrow> Inl (raise [KeyError, LookupError]) | Some x \<Rightarrow> Inr x)
      | _ \<Rightarrow> Inl (raise [TypeError]))"

definition py_get :: "json \<Rightarrow> pystr \<Rightarrow> json \<Rightarrow> py_exc + json" where
  "py_get v k dflt =
     (case v of
        JObj d \<Rightarrow> Inr (dict_get d k dflt)
      | _ \<Rightarrow> Inl (raise [AttributeError]))"

definition py_iter :: "json \<Rightarrow> py_exc + json list" where
  "py_iter v =
     (case v of
        JArr xs \<Rightarrow> Inr xs
      | JObj d \<Rightarrow> Inr (map (\<lambda>(k, _). JStr k) d)
      | JStr s \<Rightarrow> Inr (map (\<lambda>c. JStr [c]) s)
      | _ \<Rightarrow> Inl (raise [TypeError]))"

definition py_len :: "json \<Rightarrow> py_exc + nat" where
  "py_len v =
     (case v of
        JArr xs \<Rightarrow> Inr (length xs)
      | JObj d \<Rightarrow> Inr (length d)
      | JStr s \<Rightarrow> Inr (length s)
      | _ \<Rightarrow> Inl (raise [TypeError]))"

definition py_int_less :: "int \<Rightarrow> json \<Rightarrow> py_exc + bool" where
  "py_int_less n v =
     (case v of
        JInt h \<Rightarrow> Inr (n < h)
      | JBool b \<Rightarrow> Inr (n < (if b then 1 else 0))
      | JFloat r \<Rightarrow> Inr (of_int n < r)
      | _ \<Rightarrow> Inl (raise [TypeError]))"

section \<open>UTF-8 and base64\<close>

type_synonym byte = "8 word"

text \<open>
  \<open>s.encode('utf-8')\<close>: one to four bytes for each code point; a surrogate
  (\<open>U+D800\<close> to \<open>U+DFFF\<close>) raises \<open>UnicodeEncodeError\<close>. Numbers above \<open>U+10FFFF\<close> are
  not characters of a Python string; they are refused as well.
\<close>

definition utf8_char :: "nat \<Rightarrow> byte list option" where
  "utf8_char c =
     (if c < 0x80 then Some [of_nat c]
      else if c < 0x800 then Some [of_nat (0xC0 + c div 64), of_nat (0x80 + c mod 64)]
      else if c < 0x10000 then
        (if 0xD800 \<le> c \<and> c \<le> 0xDFFF then None
         else Some [of_nat (0xE0 + c div 4096), of_nat (0x80 + c div 64 mod 64),
                    of_nat (0x80 + c mod 64)])
      else if c < 0x110000 then
        Some [of_nat (0xF0 + c div 262144), of_nat (0x80 + c div 4096 mod 64),
              of_nat (0x80 + c div 64 mod 64), of_nat (0x80 + c mod 64)]
      else None)"

fun utf8_encode :: "pystr \<Rightarrow> py_exc + byte list" where
  "utf8_encode [] = Inr []"
| "utf8_encode (c # cs) =
     (case utf8_char c of
        None \<Rightarrow> Inl (PyExc [UnicodeEncodeError, UnicodeError, ValueError] [])
      | Some bs \<Rightarrow> (case utf8_encode cs of Inl e \<Rightarrow> Inl e | Inr r \<Rightarrow> Inr (bs @ r)))"

text \<open>
  \<open>b.decode('utf-8')\<close>: the strict decoder, which refuses stray continuation bytes,
  truncated and overlong sequences, surrogates and values above \<open>U+10FFFF\<close>.
\<close>

definition is_cont :: "byte \<Rightarrow> bool" where
  "is_cont b = (0x80 \<le> unat b \<and> unat b < 0xC0)"

definition decode_error :: py_exc where
  "decode_error = PyExc [UnicodeDecodeError, UnicodeError, ValueError] []"

fun utf8_decode :: "byte list \<Rightarrow> py_exc + pystr" where
  "utf8_decode [] = Inr []"
| "utf8_decode (b # bs) =
     (let n = unat b in
      if n < 0x80 then
        (case utf8_decode bs of Inl e \<Rightarrow> Inl e | Inr r \<Rightarrow> Inr (n # r))
      else if 0xC2 \<le> n \<and> n < 0xE0 then
        (case bs of
           b1 # r1 \<Rightarrow>
             if is_cont b1 then
               (case utf8_decode r1 of Inl e \<Rightarrow> Inl e
                | Inr r \<Rightarrow> Inr (((n - 0xC0) * 64 + (unat b1 - 0x80)) # r))
             else Inl decode_error
         | _ \<Rightarrow> Inl decode_error)
      else if 0xE0 \<le> n \<and> n < 0xF0 then
        (case bs of
           b1 # b2 # r2 \<Rightarrow>
             (let c = (n - 0xE0) * 4096 + (unat b1 - 0x80) * 64 + (unat b2 - 0x80) in
              if is_cont b1 \<and> is_cont b2 \<and> 0x800 \<le> c \<and> \<not> (0xD800 \<le> c \<and> c \<le> 0xDFFF) then
                (case utf8_decode r2 of Inl e \<Rightarrow> Inl e | Inr r \<Rightarrow> Inr (c # r))
              else Inl decode_error)
         | _ \<Rightarrow> Inl decode_error)
      else if 0xF0 \<le> n \<and> n < 0xF5 then
        (case bs of
           b1 # b2 # b3 # r3 \<Rightarrow>
             (let c = (n - 0xF0) * 262144 + (unat b1 - 0x80) * 4096
                        + (unat b2 - 0x80) * 64 + (unat b3 - 0x80) in
              if is_cont b1 \<and> is_cont b2 \<and> is_cont b3 \<and> 0x10000 \<le> c \<and> c < 0x110000 then
                (case utf8_decode r3 of Inl e \<Rightarrow> Inl e | Inr r \<Rightarrow> Inr (c # r))
              else Inl decode_error)
         | _ \<Rightarrow> Inl decode_error)
      else Inl decode_error)"

text \<open>
  \<open>base64.b64encode\<close> (RFC 4648, standard alphabet, padded with \<open>=\<close>): three bytes give
  four digits of six bits each; a last group of one or two bytes is padded.
\<close>

definition b64_alphabet :: pystr where
  "b64_alphabet = lit ''ABCDEFGHIJKLMNOPQRSTUVWXYZabcdefghijklmnopqrstuvwxyz0123456789+/''"

definition b64_digit :: "nat \<Rightarrow> byte" where
  "b64_digit n = of_nat (b64_alphabet ! n)"

fun b64encode :: "byte list \<Rightarrow> byte list" where
  "b64encode [] = []"
| "b64encode [a] =
     [b64_digit (unat a div 4), b64_digit (unat a mod 4 * 16), 61, 61]"
| "b64encode [a, b] =
     [b64_digit (unat a div 4), b64_digit (unat a mod 4 * 16 + unat b div 16),
      b64_digit (unat b mod 16 * 4), 61]"
| "b64encode (a # b # c # r) =
     [b64_digit (unat a div 4), b64_digit (unat a mod 4 * 16 + unat b div 16),
      b64_digit (unat b mod 16 * 4 + unat c div 64), b64_digit (unat c mod 64)]
     @ b64encode r"

text \<open>
  The inverse of a base64 digit and the decoder of padded base64 text; they are used
  only to state that \<open>b64encode\<close> loses nothing.
\<close>

definition b64_value :: "byte \<Rightarrow> nat option" where
  "b64_value x =
     (let n = unat x in
      if 65 \<le> n \<and> n \<le> 90 then Some (n - 65)
      else if 97 \<le> n \<and> n \<le> 122 then Some (n - 71)
      else if 48 \<le> n \<and> n \<le> 57 then Some (n + 4)
      else if n = 43 then Some 62
      else if n = 47 then Some 63
      else None)"

fun b64decode :: "byte list \<Rightarrow> byte list option" where
  "b64decode [] = Some []"
| "b64decode (w # x # y # z # r) =
     (case (b64_value w, b64_value x) of
        (Some p, Some q) \<Rightarrow>
          (if y = 61 \<and> z = 61 \<and> r = [] then Some [of_nat (p * 4 + q div 16)]
           else case b64_value y of
                  None \<Rightarrow> None
                | Some s \<Rightarrow>
                    (if z = 61 \<and> r = []
                     then Some [of_nat (p * 4 + q div 16), of_nat (q mod 16 * 16 + s div 4)]
                     else case b64_value z of
                            None \<Rightarrow> None
                          | Some t \<Rightarrow>
                              (case b64decode r of
                                 None \<Rightarrow> None
                               | Some bs \<Rightarrow>
                                   Some ([of_nat (p * 4 + q div 16),
                                          of_nat (q mod 16 * 16 + s div 4),
                                          of_nat (s mod 4 * 64 + t)] @ bs))))
      | _ \<Rightarrow> None)"
| "b64decode _ = None"

section \<open>The world outside the program\<close>

text \<open>
  The files (name to text), what has been printed (one entry for each call of
  \<open>print\<close>), and for each file name the text of the \<open>OSError\<close> with which opening it
  for writing fails, if it does. \<open>IOError\<close> is another name of \<open>OSError\<close>.
  Printing itself never fails in the model.
\<close>

record world =
  files :: "pystr \<Rightarrow> pystr option"
  stdout :: "pystr list"
  open_error :: "pystr \<Rightarrow> pystr option"

definition print :: "pystr \<Rightarrow> world \<Rightarrow> world" where
  "print s w = w\<lparr>stdout := stdout w @ [s]\<rparr>"

definition prints :: "pystr list \<Rightarrow> world \<Rightarrow> world" where
  "prints ls w = w\<lparr>stdout := stdout w @ ls\<rparr>"

text \<open>
  \<open>open(name, "w", encoding="utf-8")\<close> creates or empties the file, or raises.
  \<open>f.write(s)\<close> adds \<open>s\<close> to the file, or raises \<open>UnicodeEncodeError\<close> when \<open>s\<close> has
  no UTF-8 encoding; the file keeps what was written before. Failures of the device
  after a successful \<open>open\<close> are not modelled.
\<close>

definition open_w :: "pystr \<Rightarrow> world \<Rightarrow> py_exc option \<times> world" where
  "open_w name w =
     (case open_error w name of
        Some m \<Rightarrow> (Some (PyExc [OSError] m), w)
      | None \<Rightarrow> (None, w\<lparr>files := (files w)(name \<mapsto> [])\<rparr>))"

definition f_write :: "pystr \<Rightarrow> pystr \<Rightarrow> world \<Rightarrow> py_exc option \<times> world" where
  "f_write name s w =
     (case utf8_encode s of
        Inl e \<Rightarrow> (Some e, w)
      | Inr _ \<Rightarrow>
          (None, w\<lparr>files := (files w)(name \<mapsto>
                     (case files w name of None \<Rightarrow> s | Some old \<Rightarrow> old @ s))\<rparr>))"

text \<open>
  The HTTP exchange. \<open>requests.get\<close> raises or returns a response; the response has a
  status code, the text of the \<open>HTTPError\<close> that \<open>raise_for_status\<close> raises for it, its
  body text, and the outcome of \<open>response.json()\<close>: the parsed body or the exception
  raised for a body that is not JSON. The server and the network are a function from
  the URL and the \<open>Authorization\<close> header of the request to this outcome. The timeout
  of 30 seconds is one of the ways in which \<open>requests.get\<close> raises.
\<close>

record response =
  status_code :: nat
  status_error :: pystr
  resp_text :: pystr
  resp_json :: "py_exc + json"

datatype get_result = GetRaises py_exc | GetReturns response

type_synonym http = "pystr \<Rightarrow> pystr \<Rightarrow> get_result"

text \<open>\<open>response.raise_for_status()\<close> raises for the status codes 400 to 599.\<close>

definition raise_for_status :: "response \<Rightarrow> py_exc option" where
  "raise_for_status r =
     (if 400 \<le> status_code r \<and> status_code r < 600
      then Some (PyExc [HTTPError, RequestException, OSError] (status_error r))
      else None)"

section \<open>\<open>fetch_company_data\<close>\<close>

definition base_url :: pystr where
  "base_url = lit ''https://api.company-information.service.gov.uk/advanced-search/companies''"

text \<open>Lines 20 to 22.\<close>

definition request_url :: "pystr \<Rightarrow> pystr list \<Rightarrow> pystr" where
  "request_url location sic_codes_list =
     (let sic_codes_query_param = py_join (lit '','') sic_codes_list
      in base_url @ lit ''?location='' @ location
           @ lit ''&company_status=active&size=500&sic_codes='' @ sic_codes_query_param)"

text \<open>Lines 25 to 31: the value of the \<open>Authorization\<close> header.\<close>

definition authorization_header :: "pystr \<Rightarrow> py_exc + pystr" where
  "authorization_header raw_api_key =
     (let auth_string = raw_api_key @ lit '':'' in
      case utf8_encode auth_string of
        Inl e \<Rightarrow> Inl e
      | Inr bs \<Rightarrow>
          (case utf8_decode (b64encode bs) of
             Inl e \<Rightarrow> Inl e
           | Inr encoded_auth_string \<Rightarrow> Inr (lit ''Basic '' @ encoded_auth_string)))"

text \<open>
  Lines 40 to 54: the \<open>except\<close> clauses, tried in the order of the source; the first
  whose class the exception is an instance of handles it. \<open>response\<close> is \<open>None\<close> when
  \<open>requests.get\<close> itself raised, so that the local variable is unbound. Every handler
  falls through to \<open>return None\<close>.
\<close>

definition handle_request_error ::
  "response option \<Rightarrow> py_exc \<Rightarrow> world \<Rightarrow> (py_exc + json) \<times> world" where
  "handle_request_error response e w =
     (if isinstance e HTTPError then
        (let w1 = print (lit ''HTTP error occurred: '' @ msg e) w in
         case response of
           None \<Rightarrow> (Inl (raise [UnboundLocalError, NameError]), w1)
         | Some r \<Rightarrow>
             (Inr JNull,
              print (lit ''Response text: '' @ resp_text r)
                (print (lit ''Response status code: '' @ digits (status_code r)) w1)))
      else if isinstance e Timeout then
        (Inr JNull, print (lit ''Timeout error occurred: '' @ msg e) w)
      else if isinstance e ConnectionError then
        (Inr JNull, print (lit ''Connection error occurred: '' @ msg e) w)
      else if isinstance e RequestException then
        (Inr JNull, print (lit ''An unexpected request error occurred: '' @ msg e) w)
      else if isinstance e JSONDecodeError then
        (let w1 = print (lit ''Failed to decode JSON from response.'') w in
         case response of
           None \<Rightarrow> (Inr JNull, w1)
         | Some r \<Rightarrow> (Inr JNull, print (lit ''Response text: '' @ resp_text r) w1))
      else (Inl e, w))"

definition fetch_company_data ::
  "http \<Rightarrow> pystr \<Rightarrow> pystr \<Rightarrow> pystr list \<Rightarrow> world \<Rightarrow> (py_exc + json) \<times> world" where
  "fetch_company_data http raw_api_key location sic_codes_list w =
     (let url = request_url location sic_codes_list in
      case authorization_header raw_api_key of
        Inl e \<Rightarrow> (Inl e, w)
      | Inr authorization \<Rightarrow>
          (let w1 = print (lit ''Requesting URL: '' @ url) w in
           case http url authorization of
             GetRaises e \<Rightarrow> handle_request_error None e w1
           | GetReturns response \<Rightarrow>
               (case raise_for_status response of
                  Some e \<Rightarrow> handle_request_error (Some response) e w1
                | None \<Rightarrow>
                    (case resp_json response of
                       Inl e \<Rightarrow> handle_request_error (Some response) e w1
                     | Inr data \<Rightarrow> (Inr data, w1)))))"

section \<open>\<open>format_and_save_addresses\<close>\<close>

text \<open>Lines 73 to 75.\<close>

definition safe_token :: "pylib \<Rightarrow> pystr \<Rightarrow> pystr" where
  "safe_token L s = concat (map (\<lambda>c. if isalnum L c then [c] else lit ''_'') s)"

definition output_filename :: "pylib \<Rightarrow> pystr \<Rightarrow> pystr \<Rightarrow> pystr" where
  "output_filename L location first_code =
     (let safe_location = safe_token L location;
          safe_sic_code = safe_token L first_code
      in safe_location @ lit ''_'' @ safe_sic_code @ lit ''.txt'')"

definition items_key :: pystr where
  "items_key = lit ''items''"

text \<open>Line 77: \<open>not data or "items" not in data or not data["items"]\<close>.\<close>

definition no_items :: "json \<Rightarrow> py_exc + bool" where
  "no_items data =
     (if \<not> truthy data then Inr True
      else case py_contains items_key data of
             Inl e \<Rightarrow> Inl e
           | Inr False \<Rightarrow> Inr True
           | Inr True \<Rightarrow>
               (case py_subscript data items_key of
                  Inl e \<Rightarrow> Inl e
                | Inr v \<Rightarrow> Inr (\<not> truthy v)))"

text \<open>Lines 105 and 106: anything but a dict is replaced by the empty dict.\<close>

definition as_dict :: "json \<Rightarrow> (pystr \<times> json) list" where
  "as_dict v = (case v of JObj d \<Rightarrow> d | _ \<Rightarrow> [])"

text \<open>
  Lines 93 to 126, the body of the loop, on the three variables it updates:
  \<open>output_lines\<close>, \<open>skipped_count\<close> and \<open>processed_count\<close>. The first \<open>company.get\<close>
  raises \<open>AttributeError\<close> when the item is not a dict.
\<close>

type_synonym acc = "pystr list \<times> nat \<times> nat"

definition loop_body :: "pylib \<Rightarrow> json \<Rightarrow> acc \<Rightarrow> py_exc + acc" where
  "loop_body L company acc =
     (case acc of (output_lines, skipped_count, processed_count) \<Rightarrow>
      case py_get company (lit ''registered_office_address'') JNull of
        Inl e \<Rightarrow> Inl e
      | Inr address_info \<Rightarrow>
          if \<not> truthy address_info then Inr (output_lines, skipped_count + 1, processed_count)
          else
            (case py_get company (lit ''company_name'') (JStr (lit ''N/A'')) of
               Inl e \<Rightarrow> Inl e
             | Inr company_name \<Rightarrow>
                 (let address_info = as_dict address_info;
                      address_line_1 = dict_get address_info (lit ''address_line_1'') (JStr []);
                      address_line_2 = dict_get address_info (lit ''address_line_2'') (JStr []);
                      locality = dict_get address_info (lit ''locality'') (JStr []);
                      postal_code = dict_get address_info (lit ''postal_code'') (JStr [])
                  in if \<not> truthy company_name \<and> \<not> truthy address_line_1
                        \<and> \<not> truthy locality \<and> \<not> truthy postal_code
                     then Inr (output_lines, skipped_count + 1, processed_count)
                     else Inr (output_lines
                                 @ [py_str L company_name, py_str L address_line_1]
                                 @ (if truthy address_line_2 then [py_str L address_line_2] else [])
                                 @ [py_str L locality, py_str L postal_code, lit ''----''],
                               skipped_count, processed_count + 1))))"

text \<open>Line 92: the loop; an exception in the body ends it.\<close>

fun items_loop :: "pylib \<Rightarrow> json list \<Rightarrow> acc \<Rightarrow> py_exc + acc" where
  "items_loop L [] acc = Inr acc"
| "items_loop L (company # rest) acc =
     (case loop_body L company acc of
        Inl e \<Rightarrow> Inl e
      | Inr acc' \<Rightarrow> items_loop L rest acc')"

text \<open>
  \<open>except IOError as e\<close> (lines 84, 137 and 158): an \<open>OSError\<close> is reported and the
  function returns; any other exception leaves the function.
\<close>

definition on_io_error :: "pystr \<Rightarrow> py_exc \<Rightarrow> world \<Rightarrow> py_exc option \<times> world" where
  "on_io_error filename e w =
     (if isinstance e OSError
      then (None, print (lit ''Error writing to file '' @ filename @ lit '': '' @ msg e) w)
      else (Some e, w))"

definition codes_text :: "pystr list \<Rightarrow> pystr" where
  "codes_text sic_codes_list = py_join (lit '', '') sic_codes_list"

text \<open>Lines 78 to 86.\<close>

definition save_no_data ::
  "pystr \<Rightarrow> pystr \<Rightarrow> pystr list \<Rightarrow> world \<Rightarrow> py_exc option \<times> world" where
  "save_no_data filename location sic_codes_list w =
     (let w1 = print (lit ''No company items found in the data or 'items' is empty for ''
                        @ location @ lit '' / '' @ codes_text sic_codes_list @ lit ''.'') w
      in case open_w filename w1 of
           (Some e, w2) \<Rightarrow> on_io_error filename e w2
         | (None, w2) \<Rightarrow>
             (case f_write filename
                     (lit ''No company data found for location '' @ quoted location
                        @ lit '' and SIC code(s) '' @ quoted (codes_text sic_codes_list)
                        @ lit ''.'' @ [10]) w2 of
                (Some e, w3) \<Rightarrow> on_io_error filename e w3
              | (None, w3) \<Rightarrow>
                  (None, print (lit ''Output file '' @ quoted filename
                                  @ lit '' created with no data message.'') w3)))"

text \<open>Lines 129 to 139.\<close>

definition save_all_skipped ::
  "json \<Rightarrow> nat \<Rightarrow> pystr \<Rightarrow> pystr \<Rightarrow> pystr list \<Rightarrow> world \<Rightarrow> py_exc option \<times> world" where
  "save_all_skipped data skipped_count filename location sic_codes_list w =
     (let w1 = print (lit ''All records were skipped due to missing address information for ''
                        @ location @ lit '' / '' @ codes_text sic_codes_list @ lit ''.'') w
      in case open_w filename w1 of
           (Some e, w2) \<Rightarrow> on_io_error filename e w2
         | (None, w2) \<Rightarrow>
             (case f_write filename
                     (lit ''No companies with complete address data found for location ''
                        @ quoted location @ lit '' and SIC code(s) ''
                        @ quoted (codes_text sic_codes_list) @ lit ''.'' @ [10]) w2 of
                (Some e, w3) \<Rightarrow> on_io_error filename e w3
              | (None, w3) \<Rightarrow>
                  (case py_get data items_key (JArr []) of
                     Inl e \<Rightarrow> on_io_error filename e w3
                   | Inr items \<Rightarrow>
                       (case py_len items of
                          Inl e \<Rightarrow> on_io_error filename e w3
                        | Inr total_received \<Rightarrow>
                            (case f_write filename
                                    (lit ''Total records received: '' @ digits total_received
                                       @ lit '', Total skipped: '' @ digits skipped_count
                                       @ [10]) w3 of
                               (Some e, w4) \<Rightarrow> on_io_error filename e w4
                             | (None, w4) \<Rightarrow>
                                 (None, print (lit ''Output file '' @ quoted filename
                                     @ lit '' created indicating all records skipped.'') w4))))))"

text \<open>Lines 154 to 156: the two lines of the note on partial results.\<close>

definition partial_results_note :: "pystr list" where
  "partial_results_note =
     [lit ''Note: The number of items on this page is less than total API hits. '',
      lit ''This might be due to the 'size' parameter limit per request. Pagination might be needed for all results.'']"

text \<open>Lines 141 to 159.\<close>

definition save_addresses ::
  "pylib \<Rightarrow> json \<Rightarrow> acc \<Rightarrow> pystr \<Rightarrow> world \<Rightarrow> py_exc option \<times> world" where
  "save_addresses L data acc filename w =
     (case acc of (output_lines, skipped_count, processed_count) \<Rightarrow>
      case open_w filename w of
        (Some e, w1) \<Rightarrow> on_io_error filename e w1
      | (None, w1) \<Rightarrow>
          (case f_write filename (py_join [10] output_lines) w1 of
             (Some e, w2) \<Rightarrow> on_io_error filename e w2
           | (None, w2) \<Rightarrow>
               (let w3 = print (lit ''Addresses successfully written to '' @ filename) w2;
                    w4 = print (lit ''Total companies processed and written: ''
                                  @ digits processed_count) w3;
                    w5 = (if skipped_count > 0
                          then print (lit ''Total companies skipped due to missing address: ''
                                        @ digits skipped_count) w4
                          else w4)
                in case py_get data (lit ''hits'') (JStr (lit ''N/A'')) of
                     Inl e \<Rightarrow> on_io_error filename e w5
                   | Inr api_hits \<Rightarrow>
                       (let w6 = print (lit ''Total hits reported by API: '' @ py_str L api_hits) w5
                        in case py_get data items_key (JArr []) of
                             Inl e \<Rightarrow> on_io_error filename e w6
                           | Inr items \<Rightarrow>
                               (case py_len items of
                                  Inl e \<Rightarrow> on_io_error filename e w6
                                | Inr total_items_from_api_page \<Rightarrow>
                                    (case py_int_less (int total_items_from_api_page) api_hits of
                                       Inl e \<Rightarrow> on_io_error filename e w6
                                     | Inr is_less \<Rightarrow>
                                         (None, if is_less then prints partial_results_note w6
                                                else w6)))))))"

text \<open>
  The function: the exception that leaves it, if any, and the world afterwards.
\<close>

definition format_and_save_addresses ::
  "pylib \<Rightarrow> json \<Rightarrow> pystr \<Rightarrow> pystr list \<Rightarrow> world \<Rightarrow> py_exc option \<times> world" where
  "format_and_save_addresses L data location sic_codes_list w =
     (case sic_codes_list of
        [] \<Rightarrow> (None, print (lit ''Error: SIC codes list is empty, cannot generate filename.'') w)
      | first_code # _ \<Rightarrow>
          (let filename = output_filename L location first_code in
           case no_items data of
             Inl e \<Rightarrow> (Some e, w)
           | Inr True \<Rightarrow> save_no_data filename location sic_codes_list w
           | Inr False \<Rightarrow>
               (case py_subscript data items_key of
                  Inl e \<Rightarrow> (Some e, w)
                | Inr items \<Rightarrow>
                    (case py_iter items of
                       Inl e \<Rightarrow> (Some e, w)
                     | Inr companies \<Rightarrow>
                         (case items_loop L companies ([], 0, 0) of
                            Inl e \<Rightarrow> (Some e, w)
                          | Inr (output_lines, skipped_count, processed_count) \<Rightarrow>
                              if output_lines = [] \<and> processed_count = 0
                              then save_all_skipped data skipped_count filename location
                                     sic_codes_list w
                              else save_addresses L data
                                     (output_lines, skipped_count, processed_count) filename w)))))"

section \<open>The entry point (lines 162 to 190)\<close>

text \<open>
  The three environment variables after \<open>load_dotenv()\<close>, each unset or a string.
  A run ends normally, by \<open>exit()\<close>, or with an exception that nothing catches.
\<close>

record environ =
  API_KEY :: "pystr option"
  LOCATION :: "pystr option"
  SIC_CODES :: "pystr option"

datatype outcome = Finished | Exited | Uncaught py_exc

definition strip :: "pylib \<Rightarrow> pystr \<Rightarrow> pystr" where
  "strip L s = rev (dropWhile (isspace L) (rev (dropWhile (isspace L) s)))"

text \<open>Line 181.\<close>

definition parse_sic_codes :: "pylib \<Rightarrow> pystr \<Rightarrow> pystr list" where
  "parse_sic_codes L sic_codes_input_str =
     [strip L code. code \<leftarrow> py_split 44 sic_codes_input_str, strip L code \<noteq> []]"

text \<open>\<open>if not v\<close> for the result of \<open>os.getenv\<close>: unset and empty are the same.\<close>

definition getenv_set :: "pystr option \<Rightarrow> pystr option" where
  "getenv_set v = (case v of None \<Rightarrow> None | Some s \<Rightarrow> if s = [] then None else Some s)"

definition main :: "pylib \<Rightarrow> environ \<Rightarrow> http \<Rightarrow> world \<Rightarrow> outcome \<times> world" where
  "main L env http w =
     (case getenv_set (API_KEY env) of
        None \<Rightarrow>
          (Finished,
           print (lit ''Example .env content: API_KEY=your_actual_api_key_without_encoding'')
             (print (lit ''Error: API_KEY not found in .env file. Please create a .env file with your RAW API_KEY.'') w))
      | Some raw_api_key_from_env \<Rightarrow>
          (case getenv_set (LOCATION env) of
             None \<Rightarrow> (Exited, print (lit ''Location cannot be empty.'') w)
           | Some location_input \<Rightarrow>
               (case getenv_set (SIC_CODES env) of
                  None \<Rightarrow> (Exited, print (lit ''SIC code(s) cannot be empty.'') w)
                | Some sic_codes_input_str \<Rightarrow>
                    (let sic_codes_list_input = parse_sic_codes L sic_codes_input_str in
                     if sic_codes_list_input = []
                     then (Finished, print (lit ''SIC code(s) cannot be empty after stripping.'') w)
                     else
                       (case fetch_company_data http raw_api_key_from_env location_input
                               sic_codes_list_input w of
                          (Inl e, w1) \<Rightarrow> (Uncaught e, w1)
                        | (Inr company_api_data, w1) \<Rightarrow>
                            if truthy company_api_data
                            then (case format_and_save_addresses L company_api_data
                                         location_input sic_codes_list_input w1 of
                                    (Some e, w2) \<Rightarrow> (Uncaught e, w2)
                                  | (None, w2) \<Rightarrow> (Finished, w2))
                            else (Finished,
                                  print (lit ''Could not retrieve or process company data. Please check previous error messages.'') w1))))))"

section \<open>Example inputs\<close>

text \<open>
  Concrete inputs on which the theorems below are exercised. \<open>ascii_lib\<close> classifies
  the ASCII characters as Python does and no other character as alphanumeric or as
  white space; the examples contain only ASCII text, no float and no nested container
  in a printed field.
\<close>

definition ascii_lib :: pylib where
  "ascii_lib =
     \<lparr>isalnum = (\<lambda>c. (48 \<le> c \<and> c \<le> 57) \<or> (65 \<le> c \<and> c \<le> 90) \<or> (97 \<le> c \<and> c \<le> 122)),
      isspace = (\<lambda>c. (9 \<le> c \<and> c \<le> 13) \<or> (28 \<le> c \<and> c \<le> 32)),
      float_str = (\<lambda>_. []),
      container_str = (\<lambda>_. [])\<rparr>"

definition empty_world :: world where
  "empty_world = \<lparr>files = Map.empty, stdout = [], open_error = (\<lambda>_. None)\<rparr>"

definition ok_response :: "json \<Rightarrow> http" where
  "ok_response j =
     (\<lambda>url auth. GetReturns \<lparr>status_code = 200, status_error = [], resp_text = [],
                               resp_json = Inr j\<rparr>)"

definition example_env :: environ where
  "example_env =
     \<lparr>API_KEY = Some (lit ''abc''), LOCATION = Some (lit ''New York!''),
      SIC_CODES = Some (lit '' 62020, 99 ,,'')\<rparr>"

definition full_item :: json where
  "full_item =
     JObj [(lit ''company_name'', JStr (lit ''ACME LTD'')),
           (lit ''registered_office_address'',
            JObj [(lit ''address_line_1'', JStr (lit ''1 High St'')),
                  (lit ''address_line_2'', JStr (lit ''Floor 2'')),
                  (lit ''locality'', JStr (lit ''Leeds'')),
                  (lit ''postal_code'', JStr (lit ''LS1 1AA''))])]"

definition short_item :: json where
  "short_item =
     JObj [(lit ''company_name'', JStr (lit ''BETA LTD'')),
           (lit ''registered_office_address'',
            JObj [(lit ''address_line_1'', JStr (lit ''2 Low St'')),
                  (lit ''locality'', JStr (lit ''York'')),
                  (lit ''postal_code'', JStr (lit ''YO1 1AA''))])]"

definition no_address_item :: json where
  "no_address_item =
     JObj [(lit ''company_name'', JStr (lit ''GAMMA LTD'')),
           (lit ''registered_office_address'', JNull)]"

section \<open>The specification's reading of the skip rule\<close>

text \<open>
  The specification says that the name and the address fields are extracted with the
  empty string as the default of every missing piece, and that an item with a non-empty
  address is skipped when name, address line 1, locality and postal code are all empty
  strings. These two definitions follow that wording; they are compared with
  \<open>loop_body\<close> below.
\<close>

definition spec_extracted_name :: "(pystr \<times> json) list \<Rightarrow> json" where
  "spec_extracted_name c = dict_get c (lit ''company_name'') (JStr [])"

definition spec_item_skipped :: "(pystr \<times> json) list \<Rightarrow> bool" where
  "spec_item_skipped c =
     (let address_info = as_dict (dict_get c (lit ''registered_office_address'') JNull)
      in spec_extracted_name c = JStr []
         \<and> dict_get address_info (lit ''address_line_1'') (JStr []) = JStr []
         \<and> dict_get address_info (lit ''locality'') (JStr []) = JStr []
         \<and> dict_get address_info (lit ''postal_code'') (JStr []) = JStr [])"

definition nameless_item :: "(pystr \<times> json) list" where
  "nameless_item =
     [(lit ''registered_office_address'', JObj [(lit ''address_line_2'', JStr (lit ''Suite 1''))])]"

definition blank_item :: "(pystr \<times> json) list" where
  "blank_item =
     [(lit ''company_name'', JStr []),
      (lit ''registered_office_address'', JObj [(lit ''address_line_2'', JStr (lit ''Suite 1''))])]"

text \<open>
  Two exceptions that \<open>response.json()\<close> can raise for a body that is not JSON. Since
  version 2.27 of \<open>requests\<close> it raises \<open>requests.exceptions.JSONDecodeError\<close>, which
  derives from \<open>InvalidJSONError\<close> (a \<open>RequestException\<close>, itself an \<open>OSError\<close>) and
  from \<open>json.JSONDecodeError\<close>; older versions let the \<open>json.JSONDecodeError\<close> of the
  standard library through. \<open>html_response e\<close> is a server that answers every request
  with status 200 and a body for which \<open>response.json()\<close> raises \<open>e\<close>.
\<close>

definition requests_json_error :: py_exc where
  "requests_json_error =
     PyExc [RequestsJSONDecodeError, InvalidJSONError, RequestException, OSError,
            JSONDecodeError, ValueError]
       (lit ''Expecting value: line 1 column 1 (char 0)'')"

definition plain_json_error :: py_exc where
  "plain_json_error =
     PyExc [JSONDecodeError, ValueError] (lit ''Expecting value: line 1 column 1 (char 0)'')"

definition html_response :: "py_exc \<Rightarrow> http" where
  "html_response e =
     (\<lambda>url auth. GetReturns \<lparr>status_code = 200, status_error = [],
                               resp_text = lit ''<html>busy</html>'', resp_json = Inl e\<rparr>)"

text \<open>Two parsed responses with the same two items, with and without \<open>hits\<close>.\<close>

definition two_items_3_hits :: "(pystr \<times> json) list" where
  "two_items_3_hits = [(lit ''items'', JArr [full_item, short_item]), (lit ''hits'', JInt 3)]"

definition two_items_no_hits :: "(pystr \<times> json) list" where
  "two_items_no_hits = [(lit ''items'', JArr [full_item, short_item])]"

definition two_blocks :: "pystr list" where
  "two_blocks =
     [lit ''ACME LTD'', lit ''1 High St'', lit ''Floor 2'', lit ''Leeds'', lit ''LS1 1AA'',
      lit ''----'',
      lit ''BETA LTD'', lit ''2 Low St'', lit ''York'', lit ''YO1 1AA'', lit ''----'']"


section \<open>Splitting and joining\<close>

lemma py_split_no_sep: "c \<notin> set x \<Longrightarrow> py_split c x = [x]"
  by (induction x) auto

lemma py_split_append:
  "c \<notin> set x \<Longrightarrow> py_split c (x @ c # r) = x # py_split c r"
  by (induction x) auto

lemma py_split_join:
  "xs \<noteq> [] \<Longrightarrow> \<forall>x \<in> set xs. c \<notin> set x \<Longrightarrow> py_split c (py_join [c] xs) = xs"
proof (induction "[c]" xs rule: py_join.induct)
  case 1
  then show ?case by simp
next
  case (2 x)
  then show ?case by (simp add: py_split_no_sep)
next
  case (3 x y ys)
  then show ?case by (simp add: py_split_append)
qed

text \<open>
  The codes that the entry point passes on are non-empty and contain no comma.
\<close>

lemma py_split_pieces: "piece \<in> set (py_split c s) \<Longrightarrow> c \<notin> set piece"
proof (induction s arbitrary: piece)
  case Nil
  then show ?case by simp
next
  case (Cons x xs)
  show ?case
  proof (cases "x = c")
    case True
    with Cons show ?thesis by auto
  next
    case False
    with Cons show ?thesis
      by (cases "py_split c xs") auto
  qed
qed

lemma set_strip: "x \<in> set (strip L s) \<Longrightarrow> x \<in> set s"
  unfolding strip_def by (auto dest!: set_dropWhileD)

lemma parse_sic_codes_entries:
  assumes "code \<in> set (parse_sic_codes L s)"
  shows "44 \<notin> set code" and "code \<noteq> []"
proof -
  from assms obtain piece where p: "piece \<in> set (py_split 44 s)" and c: "code = strip L piece"
    and ne: "strip L piece \<noteq> []"
    by (auto simp: parse_sic_codes_def)
  from py_split_pieces [OF p] set_strip [of 44 L piece] c show "44 \<notin> set code"
    by auto
  from c ne show "code \<noteq> []" by simp
qed

section \<open>Properties of the request URL\<close>

text \<open>
  C5. The URL that \<open>fetch_company_data\<close> builds is the fixed base path followed by the
  query \<open>location=<location>\<close>, \<open>company_status=active\<close>, \<open>size=500\<close> and
  \<open>sic_codes=<codes>\<close>, in this order, where \<open><codes>\<close> is the comma-joined code list.
  For a non-empty list of codes none of which contains a comma (the entry point obtains
  them by splitting at commas, see \<open>parse_sic_codes_entries\<close>), splitting the value
  of \<open>sic_codes\<close> at its commas gives back the list of codes: each code occurs exactly
  once, in input order.
\<close>

theorem request_url_params:
  assumes "codes \<noteq> []" and "\<forall>code \<in> set codes. 44 \<notin> set code"
  shows "\<exists>q. request_url location codes
            = base_url @ lit ''?location='' @ location @ lit ''&company_status=active''
                @ lit ''&size=500'' @ lit ''&sic_codes='' @ q
           \<and> q = py_join (lit '','') codes
           \<and> py_split 44 q = codes"
proof -
  have comma: "lit '','' = [44]"
    by (simp add: lit_def)
  have "py_split 44 (py_join [44] codes) = codes"
    using assms by (rule py_split_join)
  then show ?thesis
    by (simp add: request_url_def comma lit_def)
qed

theorem request_url_params_witness:
  "[lit ''62020'', lit ''62012''] \<noteq> []
   \<and> 44 \<notin> set (lit ''62020'') \<and> 44 \<notin> set (lit ''62012'')
   \<and> (\<exists>q. request_url (lit ''Leeds'') [lit ''62020'', lit ''62012'']
          = base_url @ lit ''?location='' @ lit ''Leeds'' @ lit ''&company_status=active''
              @ lit ''&size=500'' @ lit ''&sic_codes='' @ q
        \<and> q = lit ''62020,62012''
        \<and> py_split 44 q = [lit ''62020'', lit ''62012''])"
  using request_url_params [of "[lit ''62020'', lit ''62012'']" "lit ''Leeds''"]
  by (simp add: lit_def)

section \<open>The Authorization header\<close>

lemma byte_bound: "unat (a :: byte) < 256"
  using unsigned_less [of a, where 'a = nat] by simp

lemma sextets:
  fixes a b c :: byte
  shows "unat a div 4 < 64" "unat a mod 4 * 16 < 64" "unat a mod 4 * 16 + unat b div 16 < 64"
    "unat b mod 16 * 4 < 64" "unat b mod 16 * 4 + unat c div 64 < 64" "unat c mod 64 < 64"
  using byte_bound [of a] byte_bound [of b] byte_bound [of c] by simp_all

lemma length_b64_alphabet: "length b64_alphabet = 64"
  by (simp add: b64_alphabet_def lit_def)

lemma b64_alphabet_ascii: "\<forall>x \<in> set b64_alphabet. x < 128 \<and> x \<noteq> 61"
  by (simp add: b64_alphabet_def lit_def)

lemma b64_digit_ascii: "n < 64 \<Longrightarrow> unat (b64_digit n) < 128"
proof -
  assume "n < 64"
  then have "b64_alphabet ! n \<in> set b64_alphabet"
    by (simp add: length_b64_alphabet)
  with b64_alphabet_ascii have "b64_alphabet ! n < 128" by blast
  then show ?thesis
    by (simp add: b64_digit_def unat_of_nat)
qed

lemma b64_values: "map (\<lambda>x. b64_value (of_nat x)) b64_alphabet = map Some [0..<64]"
  by (simp add: b64_alphabet_def lit_def b64_value_def upt_rec)

lemma b64_value_digit: "n < 64 \<Longrightarrow> b64_value (b64_digit n) = Some n"
proof -
  assume n: "n < 64"
  have "map (\<lambda>x. b64_value (of_nat x)) b64_alphabet ! n = map Some [0..<64] ! n"
    by (simp only: b64_values)
  with n show ?thesis
    by (simp add: b64_digit_def length_b64_alphabet del: upt_Suc)
qed


lemma b64_digit_not_pad: "n < 64 \<Longrightarrow> b64_digit n \<noteq> 61"
proof -
  assume "n < 64"
  then have "b64_alphabet ! n \<in> set b64_alphabet"
    by (simp add: length_b64_alphabet)
  with b64_alphabet_ascii have "b64_alphabet ! n < 128 \<and> b64_alphabet ! n \<noteq> 61" by blast
  then have "unat (b64_digit n) \<noteq> 61"
    by (simp add: b64_digit_def unat_of_nat)
  then show ?thesis by auto
qed

lemma b64encode_ascii: "\<forall>x \<in> set (b64encode bs). unat x < 128"
  by (induction bs rule: b64encode.induct) (simp_all add: b64_digit_ascii sextets)

lemma utf8_decode_ascii:
  "\<forall>x \<in> set bs. unat x < 128 \<Longrightarrow> utf8_decode bs = Inr (map unat bs)"
  by (induction bs) (simp_all add: Let_def)

lemma sextet_arith1:
  fixes x y z :: nat
  assumes "y < 256"
  shows "x div 4 * 4 + (x mod 4 * 16 + y div 16) div 16 = x"
proof -
  have "y div 16 < 16" using assms by simp
  then have "(x mod 4 * 16 + y div 16) div 16 = x mod 4" by simp
  then show ?thesis by simp
qed

lemma sextet_arith2:
  fixes x y z :: nat
  assumes "y < 256" and "z < 256"
  shows "(x mod 4 * 16 + y div 16) mod 16 * 16 + (y mod 16 * 4 + z div 64) div 4 = y"
proof -
  have "y div 16 < 16" using assms by simp
  then have a: "(x mod 4 * 16 + y div 16) mod 16 = y div 16" by simp
  have "z div 64 < 4" using assms by simp
  then have b: "(y mod 16 * 4 + z div 64) div 4 = y mod 16" by simp
  show ?thesis unfolding a b by simp
qed

lemma sextet_arith3:
  fixes x y z :: nat
  assumes "z < 256"
  shows "(y mod 16 * 4 + z div 64) mod 4 * 64 + z mod 64 = z"
proof -
  have "z div 64 < 4" using assms by simp
  then have a: "(y mod 16 * 4 + z div 64) mod 4 = z div 64" by simp
  show ?thesis unfolding a by simp
qed

lemma b64decode_group:
  fixes a b c :: byte
  defines "p \<equiv> unat a div 4"
    and "q \<equiv> unat a mod 4 * 16 + unat b div 16"
    and "s \<equiv> unat b mod 16 * 4 + unat c div 64"
    and "t \<equiv> unat c mod 64"
  shows "word_of_nat (p * 4 + q div 16) = a"
    and "word_of_nat (q mod 16 * 16 + s div 4) = b"
    and "word_of_nat (s mod 4 * 64 + t) = c"
proof -
  have "p * 4 + q div 16 = unat a"
    unfolding p_def q_def using sextet_arith1 [OF byte_bound] .
  then show "word_of_nat (p * 4 + q div 16) = a" by simp
  have "q mod 16 * 16 + s div 4 = unat b"
    unfolding q_def s_def using sextet_arith2 [OF byte_bound byte_bound] .
  then show "word_of_nat (q mod 16 * 16 + s div 4) = b" by simp
  have "s mod 4 * 64 + t = unat c"
    unfolding s_def t_def using sextet_arith3 [OF byte_bound] .
  then show "word_of_nat (s mod 4 * 64 + t) = c" by simp
qed

lemma b64decode_b64encode: "b64decode (b64encode bs) = Some bs"
proof (induction bs rule: b64encode.induct)
  case 1
  then show ?case by simp
next
  case (2 a)
  define p q where "p = unat a div 4" and "q = unat a mod 4 * 16 + unat (0 :: byte) div 16"
  have enc: "b64encode [a] = [b64_digit p, b64_digit q, 61, 61]"
    by (simp add: p_def q_def)
  have lt: "p < 64" "q < 64"
    unfolding p_def q_def by (rule sextets)+
  have "word_of_nat (p * 4 + q div 16) = a"
    unfolding p_def q_def by (rule b64decode_group)
  then show ?case
    unfolding enc by (simp add: b64_value_digit lt)
next
  case (3 a b)
  define p q s where "p = unat a div 4" and "q = unat a mod 4 * 16 + unat b div 16"
    and "s = unat b mod 16 * 4 + unat (0 :: byte) div 64"
  have enc: "b64encode [a, b] = [b64_digit p, b64_digit q, b64_digit s, 61]"
    by (simp add: p_def q_def s_def)
  have lt: "p < 64" "q < 64" "s < 64"
    unfolding p_def q_def s_def by (rule sextets)+
  have "word_of_nat (p * 4 + q div 16) = a" "word_of_nat (q mod 16 * 16 + s div 4) = b"
    unfolding p_def q_def s_def by (rule b64decode_group)+
  then show ?case
    unfolding enc by (simp add: b64_value_digit b64_digit_not_pad lt)
next
  case (4 a b c r)
  define p q s t where "p = unat a div 4" and "q = unat a mod 4 * 16 + unat b div 16"
    and "s = unat b mod 16 * 4 + unat c div 64" and "t = unat c mod 64"
  have enc: "b64encode (a # b # c # r)
               = [b64_digit p, b64_digit q, b64_digit s, b64_digit t] @ b64encode r"
    by (simp add: p_def q_def s_def t_def)
  have lt: "p < 64" "q < 64" "s < 64" "t < 64"
    unfolding p_def q_def s_def t_def by (rule sextets)+
  have "word_of_nat (p * 4 + q div 16) = a" "word_of_nat (q mod 16 * 16 + s div 4) = b"
    "word_of_nat (s mod 4 * 64 + t) = c"
    unfolding p_def q_def s_def t_def by (rule b64decode_group)+
  with 4 show ?case
    unfolding enc by (simp add: b64_value_digit b64_digit_not_pad lt)
qed

text \<open>
  The test vectors of RFC 4648, section 10.
\<close>

lemma b64encode_rfc4648:
  "map (\<lambda>s. map (\<lambda>c. unat c) (b64encode (map of_nat (lit s))))
       ['''', ''f'', ''fo'', ''foo'', ''foob'', ''fooba'', ''foobar'']
   = map lit ['''', ''Zg=='', ''Zm8='', ''Zm9v'', ''Zm9vYg=='', ''Zm9vYmE='', ''Zm9vYmFy'']"
  by code_simp

text \<open>
  C4. For every credential the header value is \<open>Basic\<close>, a space, and the base64 text
  of the UTF-8 bytes of the credential followed by a colon (decoding the base64 bytes as
  UTF-8 never fails and gives the same characters). A credential that has no UTF-8
  encoding, which is one with a lone surrogate, makes \<open>encode\<close> raise before any
  header exists. For \<open>abc\<close> the value is \<open>Basic YWJjOg==\<close>.
\<close>

theorem authorization_header_basic:
  "authorization_header raw_api_key =
     (case utf8_encode (raw_api_key @ lit '':'') of
        Inl e \<Rightarrow> Inl e
      | Inr bs \<Rightarrow> Inr (lit ''Basic '' @ map unat (b64encode bs)))
   \<and> authorization_header (lit ''abc'') = Inr (lit ''Basic YWJjOg=='')"
proof
  show "authorization_header raw_api_key =
     (case utf8_encode (raw_api_key @ lit '':'') of
        Inl e \<Rightarrow> Inl e
      | Inr bs \<Rightarrow> Inr (lit ''Basic '' @ map unat (b64encode bs)))"
    by (simp add: authorization_header_def utf8_decode_ascii b64encode_ascii split: sum.splits)
  show "authorization_header (lit ''abc'') = Inr (lit ''Basic YWJjOg=='')"
    by code_simp
qed

theorem authorization_header_basic_witness:
  "utf8_encode ([233] @ lit '':'') = Inr [0xC3, 0xA9, 0x3A]
   \<and> authorization_header [233] = Inr (lit ''Basic w6k6'')"
proof -
  have enc: "utf8_encode ([233] @ lit '':'') = Inr [0xC3, 0xA9, 0x3A]"
    by code_simp
  have b64: "map unat (b64encode [0xC3, 0xA9, 0x3A]) = lit ''w6k6''"
    by code_simp
  have "authorization_header [233]
          = Inr (lit ''Basic '' @ map unat (b64encode [0xC3, 0xA9, 0x3A]))"
    using authorization_header_basic [of "[233]"] by (simp only: enc sum.case)
  then have "authorization_header [233] = Inr (lit ''Basic w6k6'')"
    by (simp only: b64) (simp add: lit_def)
  with enc show ?thesis
    by (simp only: simp_thms)
qed

section \<open>The loop over the items\<close>

lemma loop_body_Inr_cases:
  assumes "loop_body L company (out, sk, pr) = Inr (out', sk', pr')"
  shows "(out' = out \<and> sk' = Suc sk \<and> pr' = pr)
       \<or> (\<exists>blk. blk \<noteq> [] \<and> out' = out @ blk \<and> sk' = sk \<and> pr' = Suc pr)"
  using assms
  by (auto simp: loop_body_def py_get_def Let_def split: json.splits if_splits)

lemma items_loop_invariant:
  "items_loop L xs (o0, s0, p0) = Inr (out, sk, pr) \<Longrightarrow>
     pr + sk = p0 + s0 + length xs \<and> ((o0 \<noteq> [] \<longleftrightarrow> 0 < p0) \<longrightarrow> (out \<noteq> [] \<longleftrightarrow> 0 < pr))"
proof (induction xs arbitrary: o0 s0 p0)
  case Nil
  then show ?case by simp
next
  case (Cons x xs)
  from Cons.prems obtain o1 s1 p1 where
    step: "loop_body L x (o0, s0, p0) = Inr (o1, s1, p1)"
    and rest: "items_loop L xs (o1, s1, p1) = Inr (out, sk, pr)"
    by (auto split: sum.splits)
  from Cons.IH [OF rest] loop_body_Inr_cases [OF step] show ?case
    by auto
qed

lemma example_loop:
  "items_loop ascii_lib [full_item, no_address_item, short_item] ([], 0, 0) =
     Inr ([lit ''ACME LTD'', lit ''1 High St'', lit ''Floor 2'', lit ''Leeds'', lit ''LS1 1AA'',
           lit ''----'',
           lit ''BETA LTD'', lit ''2 Low St'', lit ''York'', lit ''YO1 1AA'', lit ''----''], 1, 2)"
  by code_simp

text \<open>
  C9. When the loop over the items ends without an exception, the processed count plus
  the skipped count is the number of items, and the accumulated output is non-empty
  exactly when the processed count is positive.
\<close>

theorem items_loop_counts:
  assumes "items_loop L companies ([], 0, 0) = Inr (output_lines, skipped_count, processed_count)"
  shows "processed_count + skipped_count = length companies
       \<and> (output_lines \<noteq> [] \<longleftrightarrow> 0 < processed_count)"
  using items_loop_invariant [OF assms] by simp

theorem items_loop_counts_witness:
  "items_loop ascii_lib [full_item, no_address_item, short_item] ([], 0, 0) =
     Inr ([lit ''ACME LTD'', lit ''1 High St'', lit ''Floor 2'', lit ''Leeds'', lit ''LS1 1AA'',
           lit ''----'',
           lit ''BETA LTD'', lit ''2 Low St'', lit ''York'', lit ''YO1 1AA'', lit ''----''], 1, 2)
   \<and> (2::nat) + 1 = length [full_item, no_address_item, short_item]"
  using items_loop_counts [OF example_loop] example_loop by simp

text \<open>
  C7. An item that is processed (the processed count goes up by one) is a dict, and it
  adds to the output exactly one block: name, address line 1, address line 2 only when
  that field is true as a Python value (for a string: non-empty), locality, postal code
  and the separator \<open>----\<close>. The block has six entries with address line 2 and five
  without it; nothing stands in for an absent address line 2.
\<close>

theorem processed_item_block:
  assumes "loop_body L company (out, sk, pr) = Inr (out', sk', pr')"
    and "pr' = pr + 1"
  shows "\<exists>c. company = JObj c \<and>
     (let address_info = as_dict (dict_get c (lit ''registered_office_address'') JNull);
          company_name = dict_get c (lit ''company_name'') (JStr (lit ''N/A''));
          address_line_1 = dict_get address_info (lit ''address_line_1'') (JStr []);
          address_line_2 = dict_get address_info (lit ''address_line_2'') (JStr []);
          locality = dict_get address_info (lit ''locality'') (JStr []);
          postal_code = dict_get address_info (lit ''postal_code'') (JStr []);
          block = [py_str L company_name, py_str L address_line_1]
                    @ (if truthy address_line_2 then [py_str L address_line_2] else [])
                    @ [py_str L locality, py_str L postal_code, lit ''----'']
      in out' = out @ block
         \<and> length block = (if truthy address_line_2 then 6 else 5)
         \<and> sk' = sk)"
  using assms
  by (auto simp: loop_body_def py_get_def Let_def split: json.splits if_splits)

theorem processed_item_block_witness:
  "loop_body ascii_lib short_item ([], 0, 0)
     = Inr ([lit ''BETA LTD'', lit ''2 Low St'', lit ''York'', lit ''YO1 1AA'', lit ''----''], 0, 1)
   \<and> loop_body ascii_lib full_item ([], 0, 0)
     = Inr ([lit ''ACME LTD'', lit ''1 High St'', lit ''Floor 2'', lit ''Leeds'', lit ''LS1 1AA'',
             lit ''----''], 0, 1)"
proof -
  have s: "loop_body ascii_lib short_item ([], 0, 0)
     = Inr ([lit ''BETA LTD'', lit ''2 Low St'', lit ''York'', lit ''YO1 1AA'', lit ''----''], 0, 1)"
    by code_simp
  have f: "loop_body ascii_lib full_item ([], 0, 0)
     = Inr ([lit ''ACME LTD'', lit ''1 High St'', lit ''Floor 2'', lit ''Leeds'', lit ''LS1 1AA'',
             lit ''----''], 0, 1)"
    by code_simp
  from processed_item_block [OF s] processed_item_block [OF f] s f show ?thesis
    by simp
qed

text \<open>
  C2, as the specification states it, fails: the default of a missing name is \<open>N/A\<close>,
  not the empty string. The item below has a non-empty address (only address line 2)
  and no name. By the specification's rule its four deciding fields are all empty and it
  is skipped; the program processes it and writes \<open>N/A\<close> as its name.
\<close>

theorem missing_name_counterexample:
  "truthy (dict_get nameless_item (lit ''registered_office_address'') JNull)
   \<and> spec_extracted_name nameless_item = JStr []
   \<and> spec_item_skipped nameless_item
   \<and> loop_body ascii_lib (JObj nameless_item) ([], 0, 0)
       = Inr ([lit ''N/A'', [], lit ''Suite 1'', [], [], lit ''----''], 0, 1)"
  by code_simp

text \<open>
  C2, amended. For every item (a dict) whose address is true as a Python value, the name
  is extracted with the default \<open>N/A\<close> and address line 1, address line 2, locality
  and postal code with the default empty string (from the empty dict when the address is
  not a dict). The loop body never raises on such an item; it counts the item as skipped,
  leaving the output unchanged, exactly when name, address line 1, locality and postal
  code are all false as Python values (for strings: empty), and as processed otherwise.
  Address line 2 does not occur in the condition.
\<close>

theorem item_skipped_iff:
  assumes "truthy (dict_get c (lit ''registered_office_address'') JNull)"
  shows "let address_info = as_dict (dict_get c (lit ''registered_office_address'') JNull);
             company_name = dict_get c (lit ''company_name'') (JStr (lit ''N/A''));
             address_line_1 = dict_get address_info (lit ''address_line_1'') (JStr []);
             locality = dict_get address_info (lit ''locality'') (JStr []);
             postal_code = dict_get address_info (lit ''postal_code'') (JStr [])
         in (\<exists>out' sk' pr'. loop_body L (JObj c) (out, sk, pr) = Inr (out', sk', pr')
               \<and> ((out' = out \<and> sk' = sk + 1 \<and> pr' = pr)
                    \<longleftrightarrow> (\<not> truthy company_name \<and> \<not> truthy address_line_1
                          \<and> \<not> truthy locality \<and> \<not> truthy postal_code))
               \<and> ((sk' = sk \<and> pr' = pr + 1)
                    \<longleftrightarrow> \<not> (\<not> truthy company_name \<and> \<not> truthy address_line_1
                          \<and> \<not> truthy locality \<and> \<not> truthy postal_code)))"
  using assms
  by (auto simp: loop_body_def py_get_def Let_def)

theorem item_skipped_iff_witness:
  "truthy (dict_get blank_item (lit ''registered_office_address'') JNull)
   \<and> loop_body ascii_lib (JObj blank_item) ([], 0, 0) = Inr ([], 1, 0)"
proof -
  have t: "truthy (dict_get blank_item (lit ''registered_office_address'') JNull)"
    by code_simp
  have r: "loop_body ascii_lib (JObj blank_item) ([], 0, 0) = Inr ([], 1, 0)"
    by code_simp
  from item_skipped_iff [OF t, of ascii_lib "[]" 0 0] t r show ?thesis
    by simp
qed

section \<open>The fetcher\<close>

lemma fetch_keeps_files:
  "files (snd (fetch_company_data http raw_api_key location codes w)) = files w"
  "open_error (snd (fetch_company_data http raw_api_key location codes w)) = open_error w"
  by (simp_all add: fetch_company_data_def handle_request_error_def Let_def print_def
        split: sum.splits get_result.splits option.splits)

lemma fetch_unparseable_body:
  assumes "authorization_header raw_api_key = Inr auth"
    and "http (request_url location codes) auth = GetReturns r"
    and "\<not> (400 \<le> status_code r \<and> status_code r < 600)"
    and "resp_json r = Inl e"
    and "isinstance e JSONDecodeError"
  shows "fst (fetch_company_data http raw_api_key location codes w) = Inr JNull"
    and "lit ''Failed to decode JSON from response.''
           \<in> set (stdout (snd (fetch_company_data http raw_api_key location codes w)))
         \<longleftrightarrow> lit ''Failed to decode JSON from response.'' \<in> set (stdout w)
             \<or> \<not> (isinstance e HTTPError \<or> isinstance e Timeout \<or> isinstance e ConnectionError
                    \<or> isinstance e RequestException)"
  using assms
  by (auto simp: fetch_company_data_def Let_def raise_for_status_def handle_request_error_def
        print_def lit_def)

text \<open>
  C3, at a failing input. A request that succeeds with status 200 and a body that is not
  JSON, under \<open>requests\<close> 2.27 or later: the exception is an instance of
  \<open>RequestException\<close>, so the clause of line 48, which comes before the clause for
  \<open>json.JSONDecodeError\<close> of line 50, handles it. The fetcher returns \<open>None\<close>, but it
  prints the generic request diagnostic and never the parse diagnostic, which no body
  can reach with these versions of the library.
\<close>

theorem unparseable_body_generic_branch:
  "fst (fetch_company_data (html_response requests_json_error) (lit ''abc'') (lit ''Leeds'')
          [lit ''62020''] empty_world) = Inr JNull
   \<and> stdout (snd (fetch_company_data (html_response requests_json_error) (lit ''abc'')
          (lit ''Leeds'') [lit ''62020''] empty_world))
       = [lit ''Requesting URL: https://api.company-information.service.gov.uk/advanced-search/companies?location=Leeds&company_status=active&size=500&sic_codes=62020'',
          lit ''An unexpected request error occurred: Expecting value: line 1 column 1 (char 0)'']"
  by code_simp

text \<open>
  With an exception that is only a \<open>json.JSONDecodeError\<close> (\<open>requests\<close> before 2.27)
  the parse branch is taken, as \<open>fetch_unparseable_body\<close> says in general.
\<close>

lemma unparseable_body_parse_branch:
  "fst (fetch_company_data (html_response plain_json_error) (lit ''abc'') (lit ''Leeds'')
          [lit ''62020''] empty_world) = Inr JNull
   \<and> stdout (snd (fetch_company_data (html_response plain_json_error) (lit ''abc'')
          (lit ''Leeds'') [lit ''62020''] empty_world))
       = [lit ''Requesting URL: https://api.company-information.service.gov.uk/advanced-search/companies?location=Leeds&company_status=active&size=500&sic_codes=62020'',
          lit ''Failed to decode JSON from response.'',
          lit ''Response text: <html>busy</html>'']"
  by code_simp

section \<open>The name of the report file\<close>

lemma safe_token_map:
  "safe_token L s = map (\<lambda>c. if isalnum L c then c else 95) s"
  by (induction s) (simp_all add: safe_token_def lit_def)

lemma files_print [simp]: "files (print s w) = files w"
  by (simp add: print_def)

lemma files_prints [simp]: "files (prints ls w) = files w"
  by (simp add: prints_def)

lemma open_w_frame: "n \<noteq> name \<Longrightarrow> files (snd (open_w name w)) n = files w n"
  by (simp add: open_w_def split: option.splits)

lemma f_write_frame: "n \<noteq> name \<Longrightarrow> files (snd (f_write name s w)) n = files w n"
  by (simp add: f_write_def split: sum.splits)

lemma on_io_error_frame: "files (snd (on_io_error name e w)) = files w"
  by (simp add: on_io_error_def)

lemma save_no_data_frame:
  "n \<noteq> name \<Longrightarrow> files (snd (save_no_data name location codes w)) n = files w n"
  unfolding save_no_data_def Let_def
  using open_w_frame [of n name] f_write_frame [of n name]
  by (auto simp: on_io_error_frame split: prod.splits option.splits) (metis files_print snd_conv)+

lemma save_all_skipped_frame:
  "n \<noteq> name \<Longrightarrow> files (snd (save_all_skipped data sk name location codes w)) n = files w n"
  unfolding save_all_skipped_def Let_def
  using open_w_frame [of n name] f_write_frame [of n name]
  by (auto simp: on_io_error_frame split: prod.splits option.splits sum.splits)
     (metis files_print snd_conv)+

lemma save_addresses_frame:
  "n \<noteq> name \<Longrightarrow> files (snd (save_addresses L data acc name w)) n = files w n"
  unfolding save_addresses_def Let_def
  using open_w_frame [of n name] f_write_frame [of n name]
  by (auto simp: on_io_error_frame split: prod.splits option.splits sum.splits)
     (metis files_print snd_conv)+

lemma format_and_save_addresses_frame:
  "n \<noteq> output_filename L location first_code \<Longrightarrow>
     files (snd (format_and_save_addresses L data location (first_code # more_codes) w)) n
       = files w n"
  unfolding format_and_save_addresses_def Let_def
  by (simp add: save_no_data_frame save_all_skipped_frame save_addresses_frame
           split: sum.splits bool.splits prod.splits)

text \<open>
  C6. The safe form of a string has the same length and differs from it exactly at the
  characters that are not alphanumeric, which become underscores. The file name is the
  safe location, an underscore, the safe first code and \<open>.txt\<close>; it is a function of
  the location and the first code alone. \<open>format_and_save_addresses\<close>, called with a
  non-empty list of codes, changes no file other than the one of this name, whatever
  the data and the remaining codes are.
\<close>

theorem output_filename_sanitized:
  "length (safe_token L s) = length s
   \<and> (\<forall>i < length s. safe_token L s ! i = (if isalnum L (s ! i) then s ! i else 95))
   \<and> output_filename L location first_code
       = safe_token L location @ lit ''_'' @ safe_token L first_code @ lit ''.txt''
   \<and> (\<forall>name. name \<noteq> output_filename L location first_code \<longrightarrow>
         files (snd (format_and_save_addresses L data location (first_code # more_codes) w)) name
           = files w name)"
  by (simp add: safe_token_map output_filename_def format_and_save_addresses_frame)

theorem output_filename_sanitized_witness:
  "output_filename ascii_lib (lit ''New York!'') (lit ''62020'') = lit ''New_York__62020.txt''
   \<and> safe_token ascii_lib (lit ''New York!'') = lit ''New_York_''
   \<and> files (snd (format_and_save_addresses ascii_lib (JObj two_items_3_hits) (lit ''New York!'')
                    [lit ''62020'', lit ''99''] empty_world)) (lit ''New_York__99.txt'') = None"
proof -
  have name: "output_filename ascii_lib (lit ''New York!'') (lit ''62020'')
                = lit ''New_York__62020.txt''"
    by code_simp
  have tok: "safe_token ascii_lib (lit ''New York!'') = lit ''New_York_''"
    by code_simp
  have other: "lit ''New_York__99.txt'' \<noteq> lit ''New_York__62020.txt''"
    by (simp add: lit_def)
  from output_filename_sanitized [of ascii_lib "lit ''New York!''" "lit ''New York!''" "lit ''62020''"
         "JObj two_items_3_hits" "[lit ''99'']" empty_world]
  show ?thesis
    using name tok other by (simp add: empty_world_def)
qed

section \<open>Writing the address blocks\<close>

lemma no_items_present:
  assumes "map_of d items_key = Some (JArr companies)" and "companies \<noteq> []"
  shows "no_items (JObj d) = Inr False"
proof -
  from assms(1) have "items_key \<in> fst ` set d"
    by (metis domI dom_map_of_conv_image_fst)
  moreover from assms(1) have "d \<noteq> []" by auto
  ultimately show ?thesis
    using assms by (simp add: no_items_def py_contains_def py_subscript_def)
qed

lemma print_prints: "print s w = prints [s] w"
  by (simp add: print_def prints_def)

lemma prints_prints: "prints a (prints b w) = prints (b @ a) w"
  by (simp add: prints_def)

lemma save_addresses_written:
  assumes "open_error w filename = None"
    and "utf8_encode (py_join [10] output_lines) = Inr bytes"
    and "py_get data (lit ''hits'') (JStr (lit ''N/A'')) = Inr api_hits"
    and "py_get data items_key (JArr []) = Inr (JArr companies)"
  shows "save_addresses L data (output_lines, skipped_count, processed_count) filename w =
     (let w6 = prints
                 ([lit ''Addresses successfully written to '' @ filename,
                   lit ''Total companies processed and written: '' @ digits processed_count]
                  @ (if 0 < skipped_count
                     then [lit ''Total companies skipped due to missing address: ''
                             @ digits skipped_count]
                     else [])
                  @ [lit ''Total hits reported by API: '' @ py_str L api_hits])
                 (w\<lparr>files := (files w)(filename \<mapsto> py_join [10] output_lines)\<rparr>)
      in case py_int_less (int (length companies)) api_hits of
           Inl e \<Rightarrow> on_io_error filename e w6
         | Inr is_less \<Rightarrow> (None, if is_less then prints partial_results_note w6 else w6))"
  using assms
  by (simp add: save_addresses_def open_w_def f_write_def Let_def print_prints prints_prints
        py_len_def split: sum.splits)

lemma format_and_save_with_blocks:
  assumes "map_of d items_key = Some (JArr companies)" and "companies \<noteq> []"
    and "items_loop L companies ([], 0, 0) = Inr (output_lines, skipped_count, processed_count)"
    and "0 < processed_count"
  shows "format_and_save_addresses L (JObj d) location (first_code # more_codes) w
           = save_addresses L (JObj d) (output_lines, skipped_count, processed_count)
               (output_filename L location first_code) w"
  using assms no_items_present [OF assms(1,2)]
  by (simp add: format_and_save_addresses_def py_subscript_def py_iter_def)

lemma note_lines_distinct:
  "lit ''Addresses successfully written to '' @ a \<notin> set partial_results_note"
  "lit ''Total companies processed and written: '' @ b \<notin> set partial_results_note"
  "lit ''Total companies skipped due to missing address: '' @ c \<notin> set partial_results_note"
  "lit ''Total hits reported by API: '' @ e \<notin> set partial_results_note"
  by (simp_all add: partial_results_note_def lit_def)

lemma utf8_encode_ascii:
  "\<forall>c \<in> set s. c < 128 \<Longrightarrow> utf8_encode s = Inr (map of_nat s)"
  by (induction s) (simp_all add: utf8_char_def)

lemma two_blocks_loop:
  "items_loop ascii_lib [full_item, short_item] ([], 0, 0) = Inr (two_blocks, 0, 2)"
  by code_simp

lemma two_blocks_ascii: "\<forall>c \<in> set (py_join [10] two_blocks). c < 128"
  by code_simp

text \<open>
  C8. The response is a dict whose \<open>items\<close> is a non-empty list and whose \<open>hits\<close> is
  an integer; the loop processes at least one item, the file can be opened and the
  blocks have a UTF-8 encoding. Then the function returns normally, the file holds the
  blocks joined by newlines, and what it prints is the fixed diagnostics followed by the
  two lines of the partial-results note exactly when the number of items is less than
  \<open>hits\<close>: a line of the note is among the printed lines if and only if it is.
\<close>

theorem partial_results_note_iff:
  assumes "map_of d items_key = Some (JArr companies)" and "companies \<noteq> []"
    and "map_of d (lit ''hits'') = Some (JInt hits)"
    and "items_loop L companies ([], 0, 0) = Inr (output_lines, skipped_count, processed_count)"
    and "0 < processed_count"
    and "open_error w (output_filename L location first_code) = None"
    and "utf8_encode (py_join [10] output_lines) = Inr bytes"
  shows "\<exists>w'. format_and_save_addresses L (JObj d) location (first_code # more_codes) w
               = (None, w')
           \<and> files w' (output_filename L location first_code)
               = Some (py_join [10] output_lines)
           \<and> stdout w' = stdout w
               @ [lit ''Addresses successfully written to '' @ output_filename L location first_code,
                  lit ''Total companies processed and written: '' @ digits processed_count]
               @ (if 0 < skipped_count
                  then [lit ''Total companies skipped due to missing address: ''
                          @ digits skipped_count]
                  else [])
               @ [lit ''Total hits reported by API: '' @ str_int hits]
               @ (if int (length companies) < hits then partial_results_note else [])
           \<and> ((\<exists>l \<in> set partial_results_note. l \<in> set (drop (length (stdout w)) (stdout w')))
                 \<longleftrightarrow> int (length companies) < hits)"
proof -
  have get_hits: "py_get (JObj d) (lit ''hits'') (JStr (lit ''N/A'')) = Inr (JInt hits)"
    using assms(3) by (simp add: py_get_def dict_get_def)
  have get_items: "py_get (JObj d) items_key (JArr []) = Inr (JArr companies)"
    using assms(1) by (simp add: py_get_def dict_get_def)
  have ne: "hd partial_results_note \<in> set partial_results_note"
    by (simp add: partial_results_note_def)
  show ?thesis
    unfolding format_and_save_with_blocks [OF assms(1,2,4,5)]
      save_addresses_written [OF assms(6,7) get_hits get_items]
    using ne
    by (auto simp: Let_def py_int_less_def prints_def note_lines_distinct)
qed

theorem partial_results_note_iff_witness:
  "map_of two_items_3_hits items_key = Some (JArr [full_item, short_item])
   \<and> map_of two_items_3_hits (lit ''hits'') = Some (JInt 3)
   \<and> items_loop ascii_lib [full_item, short_item] ([], 0, 0) = Inr (two_blocks, 0, 2)
   \<and> (\<exists>w'. format_and_save_addresses ascii_lib (JObj two_items_3_hits) (lit ''Leeds'')
               [lit ''62020''] empty_world = (None, w')
          \<and> stdout w' =
              [lit ''Addresses successfully written to Leeds_62020.txt'',
               lit ''Total companies processed and written: 2'',
               lit ''Total hits reported by API: 3'']
              @ partial_results_note)"
proof -
  have items: "map_of two_items_3_hits items_key = Some (JArr [full_item, short_item])"
    by code_simp
  have hits: "map_of two_items_3_hits (lit ''hits'') = Some (JInt 3)"
    by code_simp
  have ne: "[full_item, short_item] \<noteq> []" by simp
  have opn: "open_error empty_world (output_filename ascii_lib (lit ''Leeds'') (lit ''62020''))
               = None"
    by (simp add: empty_world_def)
  have name: "output_filename ascii_lib (lit ''Leeds'') (lit ''62020'') = lit ''Leeds_62020.txt''"
    by code_simp
  have l2: "lit ''Total companies processed and written: '' @ digits 2
              = lit ''Total companies processed and written: 2''"
    by code_simp
  have l1: "lit ''Addresses successfully written to '' @ lit ''Leeds_62020.txt''
              = lit ''Addresses successfully written to Leeds_62020.txt''"
    by code_simp
  have l4: "lit ''Total hits reported by API: '' @ str_int 3 = lit ''Total hits reported by API: 3''"
    by code_simp
  have out: "stdout empty_world = []"
    by (simp add: empty_world_def)
  from partial_results_note_iff [OF items ne hits two_blocks_loop _ opn
         utf8_encode_ascii [OF two_blocks_ascii], of "[]"]
  have "\<exists>w'. format_and_save_addresses ascii_lib (JObj two_items_3_hits) (lit ''Leeds'')
               [lit ''62020''] empty_world = (None, w')
          \<and> stdout w' =
              [lit ''Addresses successfully written to Leeds_62020.txt'',
               lit ''Total companies processed and written: 2'',
               lit ''Total hits reported by API: 3'']
              @ partial_results_note"
    by (auto simp: name l1 l2 l4 out)
  with items hits two_blocks_loop show ?thesis
    by blast
qed

lemma writer_missing_hits:
  assumes "map_of d items_key = Some (JArr companies)" and "companies \<noteq> []"
    and "map_of d (lit ''hits'') = None"
    and "items_loop L companies ([], 0, 0) = Inr (output_lines, skipped_count, processed_count)"
    and "0 < processed_count"
    and "open_error w (output_filename L location first_code) = None"
    and "utf8_encode (py_join [10] output_lines) = Inr bytes"
  shows "format_and_save_addresses L (JObj d) location (first_code # more_codes) w
           = (Some (raise [TypeError]),
              prints
                ([lit ''Addresses successfully written to '' @ output_filename L location first_code,
                  lit ''Total companies processed and written: '' @ digits processed_count]
                 @ (if 0 < skipped_count
                    then [lit ''Total companies skipped due to missing address: ''
                            @ digits skipped_count]
                    else [])
                 @ [lit ''Total hits reported by API: N/A''])
                (w\<lparr>files := (files w)(output_filename L location first_code
                                   \<mapsto> py_join [10] output_lines)\<rparr>))"
proof -
  have get_hits: "py_get (JObj d) (lit ''hits'') (JStr (lit ''N/A'')) = Inr (JStr (lit ''N/A''))"
    using assms(3) by (simp add: py_get_def dict_get_def)
  have get_items: "py_get (JObj d) items_key (JArr []) = Inr (JArr companies)"
    using assms(1) by (simp add: py_get_def dict_get_def)
  have app: "lit ''Total hits reported by API: '' @ lit ''N/A'' = lit ''Total hits reported by API: N/A''"
    by (simp add: lit_def)
  show ?thesis
    unfolding format_and_save_with_blocks [OF assms(1,2,4,5)]
      save_addresses_written [OF assms(6,7) get_hits get_items]
    by (simp add: Let_def py_int_less_def on_io_error_def isinstance_def raise_def app)
qed

text \<open>
  C10. A whole run: the three settings are present, the fetch returns a dict whose
  \<open>items\<close> is a non-empty list with at least one processed item and which has no
  \<open>hits\<close>, and the report can be written. The comparison of line 153 is then between
  the item count and the default \<open>"N/A"\<close>; it raises \<open>TypeError\<close>, which is not an
  \<open>OSError\<close>, so that \<open>except IOError\<close> does not catch it and the run ends with this
  exception. The report file has been written in full before, and the last line
  printed is the one that reports \<open>N/A\<close> hits.
\<close>

theorem missing_hits_uncaught_type_error:
  assumes "getenv_set (API_KEY env) = Some raw_api_key"
    and "getenv_set (LOCATION env) = Some location"
    and "getenv_set (SIC_CODES env) = Some sic_codes_input_str"
    and "parse_sic_codes L sic_codes_input_str = first_code # more_codes"
    and "fetch_company_data http raw_api_key location (first_code # more_codes) w
           = (Inr (JObj d), w1)"
    and "map_of d items_key = Some (JArr companies)" and "companies \<noteq> []"
    and "map_of d (lit ''hits'') = None"
    and "items_loop L companies ([], 0, 0) = Inr (output_lines, skipped_count, processed_count)"
    and "0 < processed_count"
    and "open_error w1 (output_filename L location first_code) = None"
    and "utf8_encode (py_join [10] output_lines) = Inr bytes"
  shows "\<exists>e w'. main L env http w = (Uncaught e, w')
           \<and> isinstance e TypeError \<and> \<not> isinstance e OSError
           \<and> files w' (output_filename L location first_code)
               = Some (py_join [10] output_lines)
           \<and> last (stdout w') = lit ''Total hits reported by API: N/A''"
proof -
  from assms(6) have "d \<noteq> []" by auto
  then show ?thesis
    unfolding main_def
    by (simp add: assms(1-5) writer_missing_hits [OF assms(6-12)] isinstance_def raise_def
          prints_def)
qed

theorem missing_hits_uncaught_type_error_witness:
  "getenv_set (API_KEY example_env) = Some (lit ''abc'')
   \<and> parse_sic_codes ascii_lib (lit '' 62020, 99 ,,'') = [lit ''62020'', lit ''99'']
   \<and> map_of two_items_no_hits (lit ''hits'') = None
   \<and> (\<exists>e w'. main ascii_lib example_env (ok_response (JObj two_items_no_hits)) empty_world
                 = (Uncaught e, w')
          \<and> isinstance e TypeError
          \<and> files w' (lit ''New_York__62020.txt'') = Some (py_join [10] two_blocks)
          \<and> last (stdout w') = lit ''Total hits reported by API: N/A'')"
proof -
  let ?http = "ok_response (JObj two_items_no_hits)"
  let ?w1 = "snd (fetch_company_data ?http (lit ''abc'') (lit ''New York!'')
                [lit ''62020'', lit ''99''] empty_world)"
  have key: "getenv_set (API_KEY example_env) = Some (lit ''abc'')"
    by code_simp
  have loc: "getenv_set (LOCATION example_env) = Some (lit ''New York!'')"
    by code_simp
  have codes: "getenv_set (SIC_CODES example_env) = Some (lit '' 62020, 99 ,,'')"
    by code_simp
  have parse: "parse_sic_codes ascii_lib (lit '' 62020, 99 ,,'') = [lit ''62020'', lit ''99'']"
    by code_simp
  have "fst (fetch_company_data ?http (lit ''abc'') (lit ''New York!'')
               [lit ''62020'', lit ''99''] empty_world) = Inr (JObj two_items_no_hits)"
    by code_simp
  then have fetch: "fetch_company_data ?http (lit ''abc'') (lit ''New York!'')
                      [lit ''62020'', lit ''99''] empty_world
                    = (Inr (JObj two_items_no_hits), ?w1)"
    by (metis prod.collapse)
  have items: "map_of two_items_no_hits items_key = Some (JArr [full_item, short_item])"
    by code_simp
  have hits: "map_of two_items_no_hits (lit ''hits'') = None"
    by code_simp
  have ne: "[full_item, short_item] \<noteq> []" by simp
  have opn: "open_error ?w1 (output_filename ascii_lib (lit ''New York!'') (lit ''62020'')) = None"
    by (simp add: fetch_keeps_files empty_world_def)
  have name: "output_filename ascii_lib (lit ''New York!'') (lit ''62020'')
                = lit ''New_York__62020.txt''"
    by code_simp
  from missing_hits_uncaught_type_error [OF key loc codes parse fetch items ne hits
         two_blocks_loop _ opn utf8_encode_ascii [OF two_blocks_ascii]]
  have "\<exists>e w'. main ascii_lib example_env (ok_response (JObj two_items_no_hits)) empty_world
                 = (Uncaught e, w')
          \<and> isinstance e TypeError
          \<and> files w' (lit ''New_York__62020.txt'') = Some (py_join [10] two_blocks)
          \<and> last (stdout w') = lit ''Total hits reported by API: N/A''"
    by (auto simp: name)
  with key parse hits show ?thesis
    by blast
qed

section \<open>The entry point\<close>

lemma ok_response_fetch:
  "fst (fetch_company_data (ok_response j) raw_api_key location codes w) = Inr d \<Longrightarrow> d = j"
  by (auto simp: fetch_company_data_def ok_response_def raise_for_status_def Let_def
        split: sum.splits)

lemma main_falsy_data_keeps_files:
  assumes "\<And>raw_api_key location codes d.
             fst (fetch_company_data http raw_api_key location codes w) = Inr d \<Longrightarrow> \<not> truthy d"
  shows "files (snd (main L env http w)) = files w"
proof -
  have "files (snd (case fetch_company_data http k l c w of
                       (Inl e, w1) \<Rightarrow> (Uncaught e, w1)
                     | (Inr data, w1) \<Rightarrow>
                         if truthy data
                         then (case format_and_save_addresses L data l c w1 of
                                 (Some e, w2) \<Rightarrow> (Uncaught e, w2)
                               | (None, w2) \<Rightarrow> (Finished, w2))
                         else (Finished, print m w1))) = files w" for k l c m
  proof (cases "fetch_company_data http k l c w")
    case (Pair r w1)
    then have w1: "files w1 = files w"
      using fetch_keeps_files(1) [of http k l c w] by simp
    show ?thesis
    proof (cases r)
      case (Inl e)
      with Pair w1 show ?thesis by simp
    next
      case (Inr data)
      with Pair have "\<not> truthy data"
        using assms [of k l c data] by simp
      with Pair Inr w1 show ?thesis by simp
    qed
  qed
  then show ?thesis
    by (simp add: main_def Let_def split: option.splits)
qed

text \<open>
  Called with the empty object, \<open>format_and_save_addresses\<close> writes the report file
  with the explanatory line: its test \<open>not data\<close> of line 77 is there for such data.
\<close>

lemma writer_handles_empty_object:
  "format_and_save_addresses ascii_lib (JObj []) (lit ''New York!'') [lit ''62020'', lit ''99'']
     empty_world
   = (None,
      prints [lit ''No company items found in the data or 'items' is empty for New York! / 62020, 99.'',
              lit ''Output file 'New_York__62020.txt' created with no data message.'']
        (empty_world\<lparr>files := [lit ''New_York__62020.txt'' \<mapsto>
           lit ''No company data found for location 'New York!' and SIC code(s) '62020, 99'.'' @ [10]]\<rparr>))"
proof -
  have name: "output_filename ascii_lib (lit ''New York!'') (lit ''62020'')
                = lit ''New_York__62020.txt''"
    by code_simp
  have body: "lit ''No company data found for location '' @ quoted (lit ''New York!'')
               @ lit '' and SIC code(s) '' @ quoted (codes_text [lit ''62020'', lit ''99''])
               @ lit ''.'' @ [10]
             = lit ''No company data found for location 'New York!' and SIC code(s) '62020, 99'.'' @ [10]"
    by code_simp
  have enc: "utf8_encode (lit ''No company data found for location 'New York!' and SIC code(s) '62020, 99'.'' @ [10])
               = Inr (map of_nat (lit ''No company data found for location 'New York!' and SIC code(s) '62020, 99'.'' @ [10]))"
    by (rule utf8_encode_ascii) code_simp
  have p1: "lit ''No company items found in the data or 'items' is empty for '' @ lit ''New York!''
              @ lit '' / '' @ codes_text [lit ''62020'', lit ''99''] @ lit ''.''
            = lit ''No company items found in the data or 'items' is empty for New York! / 62020, 99.''"
    by code_simp
  have p2: "lit ''Output file '' @ quoted (lit ''New_York__62020.txt'')
              @ lit '' created with no data message.''
            = lit ''Output file 'New_York__62020.txt' created with no data message.''"
    by code_simp
  show ?thesis
    by (simp add: format_and_save_addresses_def name no_items_def save_no_data_def Let_def
          open_w_def f_write_def body enc p1 p2 print_prints prints_prints empty_world_def
          prints_def)
qed

text \<open>
  C1, at a failing input. The request succeeds with status 200 and the body \<open>{}\<close>,
  which parses and has no items. The entry point tests the truth value of the parsed
  data (line 187); the empty dict is false, so the writer is never called: the run
  prints that the data could not be retrieved, as after a failed fetch, and ends
  normally with no file written at all.
\<close>

theorem empty_object_no_report:
  "fst (main ascii_lib example_env (ok_response (JObj [])) empty_world) = Finished
   \<and> stdout (snd (main ascii_lib example_env (ok_response (JObj [])) empty_world))
       = [lit ''Requesting URL: https://api.company-information.service.gov.uk/advanced-search/companies?location=New York!&company_status=active&size=500&sic_codes=62020,99'',
          lit ''Could not retrieve or process company data. Please check previous error messages.'']
   \<and> files (snd (main ascii_lib example_env (ok_response (JObj [])) empty_world)) = Map.empty"
proof -
  have a: "fst (main ascii_lib example_env (ok_response (JObj [])) empty_world) = Finished
   \<and> stdout (snd (main ascii_lib example_env (ok_response (JObj [])) empty_world))
       = [lit ''Requesting URL: https://api.company-information.service.gov.uk/advanced-search/companies?location=New York!&company_status=active&size=500&sic_codes=62020,99'',
          lit ''Could not retrieve or process company data. Please check previous error messages.'']"
    by code_simp
  have "files (snd (main ascii_lib example_env (ok_response (JObj [])) empty_world))
          = files empty_world"
    by (rule main_falsy_data_keeps_files) (auto dest: ok_response_fetch)
  with a show ?thesis
    by (simp add: empty_world_def)
qed


end
